theory Spec2Isabelle
  imports Complex_Main
begin

section \<open>Pull-over traffic rule of the planning module (pull_over.cc)\<close>

text \<open>
  A shallow embedding of \<^verbatim>\<open>modules/planning/tasks/traffic_decider/pull_over.cc\<close>.

  Conventions of the embedding:
  \<^item> a C++ \<^verbatim>\<open>double\<close> is a \<^typ>\<open>real\<close>: comparisons and the additions of the
    step \<open>5.0\<close> are read as exact arithmetic, rounding and NaN are not modelled;
  \<^item> the collaborators whose code is not in this file (reference line, HD map, frame,
    vehicle configuration, the constants of \<^verbatim>\<open>pull_over.h\<close>) are fields of the record
    \<open>Env\<close>, so that every theorem holds for all of their behaviours;
  \<^item> what the rule mutates (the persisted planning status, the path decision of the
    reference line) is the record \<open>World\<close>, passed in and returned;
  \<^item> an \<^verbatim>\<open>int\<close> return code with an out-parameter \<^verbatim>\<open>PointENU*\<close> is returned
    as a value: \<open>None\<close> is \<open>-1\<close> with the out-parameter untouched, \<open>Some p\<close> is
    \<open>0\<close> with the out-parameter set to \<open>p\<close>; where the source writes the out-parameter
    on a failing path too, the function takes the old point and returns the pair;
  \<^item> dereferencing a null pointer is the value \<open>Inl\<close> of a \<open>Fault\<close>.
\<close>

subsection \<open>Data\<close>

text \<open>\<^verbatim>\<open>common::PointENU\<close> and \<^verbatim>\<open>math::Vec2d\<close>: the functions below read and write
  \<open>x\<close> and \<open>y\<close> only (the \<open>z\<close> of a stop decision is set to the constant \<open>0.0\<close>
  and never read).\<close>

record PointENU =
  pt_x :: real
  pt_y :: real

record SLPoint =
  sl_s :: real
  sl_l :: real

record SLBoundary =
  start_s :: real
  end_s :: real
  start_l :: real
  end_l :: real

record ReferencePoint =
  rp_x :: real
  rp_y :: real
  rp_heading :: real

record PathOverlap =
  ov_start_s :: real
  ov_end_s :: real

datatype LaneTurn = NO_TURN | LEFT_TURN | RIGHT_TURN | U_TURN

datatype LaneType = NONE | CITY_DRIVING | BIKING | SIDEWALK | PARKING

record Lane =
  lane_id :: string
  turn :: LaneTurn
  lane_type :: LaneType
  right_neighbor_forward_lane_id :: "string list"

record Obstacle =
  Id :: string
  IsVirtual :: bool
  IsStatic :: bool

record PathObstacle =
  obstacle :: Obstacle
  PerceptionSLBoundary :: SLBoundary

datatype Reason = DESTINATION | EMERGENCY

record PullOverStatus =
  in_pull_over :: bool
  reason :: Reason
  start_point :: "PointENU option"
  stop_point :: "PointENU option"
  stop_point_heading :: "real option"

text \<open>\<^verbatim>\<open>ObjectDecisionType\<close> with its \<^verbatim>\<open>stop\<close> member set.\<close>

datatype StopReasonCode = STOP_REASON_PULL_OVER

record ObjectStop =
  reason_code :: StopReasonCode
  distance_s :: real
  stop_heading :: real
  stop_decision_point :: PointENU

record LongitudinalDecision =
  ld_tag :: string
  ld_object_id :: string
  ld_stop :: ObjectStop

record PullOverConfig =
  operation_length :: real
  buffer_to_boundary :: real
  max_check_distance :: real
  plan_distance :: real
  stop_distance :: real

text \<open>The read-only inputs of one planning cycle. The boolean results of
  \<^verbatim>\<open>XYToSL\<close> and \<^verbatim>\<open>SLToXY\<close> are discarded by every call in the source, so they are
  functions to their output here. \<^verbatim>\<open>GetRoadWidth\<close> returns \<open>None\<close> where it leaves
  its two output arguments untouched. \<open>BaseMapPtr\<close> is \<open>None\<close> for a null map pointer.
  \<open>default_point\<close> is a default-constructed \<^verbatim>\<open>PointENU\<close> and \<open>default_reason\<close> the
  default \<^verbatim>\<open>reason\<close> of the status message (both declared in protocol files outside this
  source file).\<close>

record Env =
  Length :: real
  XYToSL :: "PointENU \<Rightarrow> SLPoint"
  SLToXY :: "SLPoint \<Rightarrow> PointENU"
  GetReferencePoint :: "real \<Rightarrow> ReferencePoint"
  GetRoadWidth :: "real \<Rightarrow> (real \<times> real) option"
  GetLaneFromS :: "real \<Rightarrow> Lane list"
  crosswalk_overlaps :: "PathOverlap list"
  junction_overlaps :: "PathOverlap list"
  clear_area_overlaps :: "PathOverlap list"
  speed_bump_overlaps :: "PathOverlap list"
  BaseMapPtr :: "(string \<Rightarrow> Lane option) option"
  AdcSlBoundary :: SLBoundary
  vehicle_width :: real
  vehicle_length :: real
  config :: PullOverConfig
  rule_id_name :: string
  PARKING_SPOT_LONGITUDINAL_BUFFER :: real
  PULL_OVER_VO_ID_PREFIX :: string
  Reason_Name :: "Reason \<Rightarrow> string"
  CreateStopObstacle :: "string \<Rightarrow> real \<Rightarrow> Obstacle option"
  AddObstacle :: "Obstacle \<Rightarrow> PathObstacle option"
  default_point :: PointENU
  default_reason :: Reason

text \<open>What the rule reads and writes: the optional \<^verbatim>\<open>pull_over\<close> member of the
  planning state, the path obstacles of the path decision and the longitudinal decisions
  added to it.\<close>

record World =
  pull_over :: "PullOverStatus option"
  path_obstacles :: "PathObstacle list"
  longitudinal_decisions :: "LongitudinalDecision list"

datatype Fault = NullLane | NullBaseMap

subsection \<open>Planning status accessors\<close>

text \<open>The default instance that the accessor \<^verbatim>\<open>pull_over()\<close> returns, and that
  \<^verbatim>\<open>mutable_pull_over()\<close> creates, when the member is not set.\<close>

definition default_status :: "Env \<Rightarrow> PullOverStatus" where
  "default_status env =
     \<lparr>in_pull_over = False, reason = default_reason env, start_point = None,
      stop_point = None, stop_point_heading = None\<rparr>"

definition pull_over_status :: "Env \<Rightarrow> World \<Rightarrow> PullOverStatus" where
  "pull_over_status env w =
     (case pull_over w of None \<Rightarrow> default_status env | Some st \<Rightarrow> st)"

definition IsPullOver :: "World \<Rightarrow> bool" where
  "IsPullOver w = (case pull_over w of None \<Rightarrow> False | Some st \<Rightarrow> in_pull_over st)"

subsection \<open>Stop-site validation\<close>

definition parking_spot_boundary :: "Env \<Rightarrow> SLPoint \<Rightarrow> SLBoundary" where
  "parking_spot_boundary env stop_point_sl =
     \<lparr>start_s = sl_s stop_point_sl - vehicle_length env - PARKING_SPOT_LONGITUDINAL_BUFFER env,
      end_s = sl_s stop_point_sl + PARKING_SPOT_LONGITUDINAL_BUFFER env,
      start_l = sl_l stop_point_sl - vehicle_width env / 2 - buffer_to_boundary (config env),
      end_l = sl_l stop_point_sl + vehicle_width env / 2\<rparr>"

text \<open>The loop over the path obstacles: a virtual or non-static obstacle is skipped, the
  first remaining one that the separating-axis test does not clear returns \<open>False\<close>.\<close>

fun check_obstacles :: "SLBoundary \<Rightarrow> PathObstacle list \<Rightarrow> bool" where
  "check_obstacles spot [] = True"
| "check_obstacles spot (path_obstacle # rest) =
     (if IsVirtual (obstacle path_obstacle) \<or> \<not> IsStatic (obstacle path_obstacle)
      then check_obstacles spot rest
      else let obstacle_sl = PerceptionSLBoundary path_obstacle in
        if \<not> (start_s spot > end_s obstacle_sl \<or>
                start_s obstacle_sl > end_s spot \<or>
                start_l spot > end_l obstacle_sl \<or>
                start_l obstacle_sl > end_l spot)
        then False
        else check_obstacles spot rest)"

definition IsValidStop_sl :: "Env \<Rightarrow> World \<Rightarrow> SLPoint \<Rightarrow> bool" where
  "IsValidStop_sl env w stop_point_sl =
     (if sl_s stop_point_sl < 0 \<or> sl_s stop_point_sl > Length env then False
      else if sl_s stop_point_sl - end_s (AdcSlBoundary env) < operation_length (config env)
      then False
      else check_obstacles (parking_spot_boundary env stop_point_sl) (path_obstacles w))"

definition IsValidStop :: "Env \<Rightarrow> World \<Rightarrow> PointENU \<Rightarrow> bool" where
  "IsValidStop env w p = IsValidStop_sl env w (XYToSL env p)"

subsection \<open>Overlap zones\<close>

definition in_overlaps :: "real \<Rightarrow> PathOverlap list \<Rightarrow> bool" where
  "in_overlaps s overlaps = list_ex (\<lambda>ov. s \<ge> ov_start_s ov \<and> s \<le> ov_end_s ov) overlaps"

definition OnOverlap :: "Env \<Rightarrow> real \<Rightarrow> bool" where
  "OnOverlap env s =
     (if in_overlaps s (crosswalk_overlaps env) then True
      else if in_overlaps s (junction_overlaps env) then True
      else if in_overlaps s (clear_area_overlaps env) then True
      else if in_overlaps s (speed_bump_overlaps env) then True
      else False)"

subsection \<open>The parking spot at a given arc length\<close>

text \<open>One call \<^verbatim>\<open>GetRoadWidth(s, &road_left_width, &road_right_width)\<close>, seen from
  the variable \<^verbatim>\<open>road_right_width\<close>: its old value stays where the call writes
  nothing.\<close>

definition road_right_width_at :: "Env \<Rightarrow> real \<Rightarrow> real \<Rightarrow> real" where
  "road_right_width_at env s road_right_width =
     (case GetRoadWidth env s of None \<Rightarrow> road_right_width | Some (left, right) \<Rightarrow> right)"

definition stop_point_sl_at :: "Env \<Rightarrow> real \<Rightarrow> SLPoint" where
  "stop_point_sl_at env stop_point_s =
     (let adc_width = vehicle_width env;
          adc_length = vehicle_length env;
          parking_spot_end_s = stop_point_s + PARKING_SPOT_LONGITUDINAL_BUFFER env;
          parking_spot_end_s_road_right_width = road_right_width_at env parking_spot_end_s 0;
          adc_center_s = stop_point_s - adc_length / 2;
          adc_center_s_road_right_width =
            road_right_width_at env adc_center_s parking_spot_end_s_road_right_width;
          parking_spot_start_s =
            stop_point_s - adc_length - PARKING_SPOT_LONGITUDINAL_BUFFER env;
          parking_spot_start_s_road_right_width =
            road_right_width_at env parking_spot_start_s adc_center_s_road_right_width;
          road_right_width =
            min (min parking_spot_end_s_road_right_width adc_center_s_road_right_width)
                parking_spot_start_s_road_right_width
      in \<lparr>sl_s = stop_point_s,
          sl_l = - (road_right_width - adc_width / 2 - buffer_to_boundary (config env))\<rparr>)"

text \<open>\<^verbatim>\<open>FindPullOverStop(stop_point_s, stop_point)\<close>.\<close>

definition FindPullOverStop_s :: "Env \<Rightarrow> World \<Rightarrow> real \<Rightarrow> PointENU option" where
  "FindPullOverStop_s env w stop_point_s =
     (if stop_point_s < 0 \<or> stop_point_s > Length env then None
      else let stop_point_sl = stop_point_sl_at env stop_point_s in
        if IsValidStop_sl env w stop_point_sl then Some (SLToXY env stop_point_sl)
        else None)"

subsection \<open>The forward scan\<close>

definition kDistanceUnit :: real where
  "kDistanceUnit = 5"

text \<open>The loop that picks \<^verbatim>\<open>lane\<close> among the lanes at \<^verbatim>\<open>check_s\<close>:
  \<^verbatim>\<open>prev_lane_id\<close> is the empty string whenever it is compared, so a lane with an
  empty id is passed over and the first other lane is taken. \<open>None\<close> is the null
  \<^verbatim>\<open>lane\<close> left when no lane is taken.\<close>

fun pick_lane :: "Lane list \<Rightarrow> Lane option" where
  "pick_lane [] = None"
| "pick_lane (temp_lane # rest) =
     (if lane_id temp_lane = [] then pick_lane rest else Some temp_lane)"

text \<open>The loop over \<^verbatim>\<open>right_neighbor_forward_lane_id\<close>; the result is
  \<^verbatim>\<open>rightmost_driving_lane\<close>.\<close>

fun rightmost_driving_lane :: "Env \<Rightarrow> string list \<Rightarrow> Fault + bool" where
  "rightmost_driving_lane env [] = Inr True"
| "rightmost_driving_lane env (neighbor_lane_id # rest) =
     (case BaseMapPtr env of
        None \<Rightarrow> Inl NullBaseMap
      | Some GetLaneById \<Rightarrow>
          (case GetLaneById neighbor_lane_id of
             None \<Rightarrow> rightmost_driving_lane env rest
           | Some neighbor_lane \<Rightarrow>
               if lane_type neighbor_lane = CITY_DRIVING then Inr False
               else rightmost_driving_lane env rest))"

text \<open>One pass through the body of the \<^verbatim>\<open>while\<close> loop, after \<^verbatim>\<open>check_s\<close> and
  \<^verbatim>\<open>total_check_length\<close> have been advanced: \<open>Continue c\<close> goes on with
  \<^verbatim>\<open>check_length = c\<close>, \<open>Found p\<close> is \<^verbatim>\<open>return 0\<close> with the stop point \<open>p\<close>.\<close>

datatype Step = Continue real | Found PointENU | Crash Fault

definition check_sample :: "Env \<Rightarrow> World \<Rightarrow> real \<Rightarrow> real \<Rightarrow> Step" where
  "check_sample env w check_length check_s =
     (case pick_lane (GetLaneFromS env check_s) of
        None \<Rightarrow> Crash NullLane
      | Some lane \<Rightarrow>
          if turn lane \<noteq> NO_TURN then Continue 0
          else
            (case rightmost_driving_lane env (right_neighbor_forward_lane_id lane) of
               Inl fault \<Rightarrow> Crash fault
             | Inr rightmost \<Rightarrow>
                 if \<not> rightmost then Continue 0
                 else if OnOverlap env check_s then Continue 0
                 else if check_length + kDistanceUnit \<ge> plan_distance (config env) then
                   (case FindPullOverStop_s env w check_s of
                      None \<Rightarrow> Continue 0
                    | Some point \<Rightarrow> Found point)
                 else Continue (check_length + kDistanceUnit)))"

text \<open>The \<^verbatim>\<open>while\<close> loop. The last argument counts the passes through the body; it
  is not a variable of the source. The result is the count and what the function
  returns.\<close>

function scan_loop ::
  "Env \<Rightarrow> World \<Rightarrow> real \<Rightarrow> real \<Rightarrow> real \<Rightarrow> nat \<Rightarrow> nat \<times> (Fault + PointENU option)" where
  "scan_loop env w check_length total_check_length check_s iterations =
     (if total_check_length < max_check_distance (config env) then
        (case check_sample env w check_length (check_s + kDistanceUnit) of
           Crash fault \<Rightarrow> (Suc iterations, Inl fault)
         | Found point \<Rightarrow> (Suc iterations, Inr (Some point))
         | Continue check_length' \<Rightarrow>
             scan_loop env w check_length' (total_check_length + kDistanceUnit)
               (check_s + kDistanceUnit) (Suc iterations))
      else (iterations, Inr None))"
  by pat_completeness auto
termination
proof (relation "measure (\<lambda>(env, w, cl, total, cs, n).
    nat \<lceil>(max_check_distance (config env) - total) / 5\<rceil>)")
  show "wf (measure (\<lambda>(env, w, cl, total, cs, n).
    nat \<lceil>(max_check_distance (config env) - total) / 5\<rceil>))"
    by simp
next
  fix env :: Env and w :: World and check_length total_check_length check_s :: real
    and iterations :: nat and c :: real
  assume lt: "total_check_length < max_check_distance (config env)"
  let ?d = "max_check_distance (config env) - total_check_length"
  have "(?d - 5) / 5 = ?d / 5 - 1" by simp
  then have "\<lceil>(?d - 5) / 5\<rceil> = \<lceil>?d / 5 - 1\<rceil>" by (simp only:)
  then have "\<lceil>(?d - 5) / 5\<rceil> = \<lceil>?d / 5\<rceil> - 1" by (simp only: ceiling_diff_one)
  moreover have "0 < \<lceil>?d / 5\<rceil>" using lt by simp
  ultimately have "nat \<lceil>(?d - 5) / 5\<rceil> < nat \<lceil>?d / 5\<rceil>" by simp
  then show "((env, w, c, total_check_length + kDistanceUnit, check_s + kDistanceUnit,
      Suc iterations), (env, w, check_length, total_check_length, check_s, iterations))
    \<in> measure (\<lambda>(env, w, cl, total, cs, n).
        nat \<lceil>(max_check_distance (config env) - total) / 5\<rceil>)"
    by (simp add: kDistanceUnit_def algebra_simps)
qed

declare scan_loop.simps [simp del]

text \<open>\<^verbatim>\<open>FindPullOverStop(stop_point)\<close>, and the number of passes it makes.\<close>

definition FindPullOverStop :: "Env \<Rightarrow> World \<Rightarrow> Fault + PointENU option" where
  "FindPullOverStop env w = snd (scan_loop env w 0 0 (end_s (AdcSlBoundary env)) 0)"

definition scan_iterations :: "Env \<Rightarrow> World \<Rightarrow> nat" where
  "scan_iterations env w = fst (scan_loop env w 0 0 (end_s (AdcSlBoundary env)) 0)"

subsection \<open>The stop point of the cycle\<close>

text \<open>The stop point that passes \<^verbatim>\<open>has_start_point() && has_stop_point()\<close>.\<close>

definition cached_stop_point :: "PullOverStatus \<Rightarrow> PointENU option" where
  "cached_stop_point status =
     (case start_point status of None \<Rightarrow> None | Some _ \<Rightarrow> stop_point status)"

text \<open>\<^verbatim>\<open>GetPullOverStop(stop_point)\<close>: the argument is the point behind the pointer
  at the call, the result is the return code and the point behind it at the return.\<close>

definition GetPullOverStop :: "Env \<Rightarrow> World \<Rightarrow> PointENU \<Rightarrow> Fault + (int \<times> PointENU)" where
  "GetPullOverStop env w p =
     (let cached = cached_stop_point (pull_over_status env w);
          p1 = (case cached of None \<Rightarrow> p | Some c \<Rightarrow> c)
      in if cached \<noteq> None \<and> IsValidStop env w p1 then Inr (0, p1)
         else
           (case FindPullOverStop env w of
              Inl fault \<Rightarrow> Inl fault
            | Inr (Some found) \<Rightarrow> Inr (0, found)
            | Inr None \<Rightarrow> Inr (- 1, p1)))"

subsection \<open>Emitting the decision\<close>

definition BuildStopDecision ::
  "Env \<Rightarrow> World \<Rightarrow> real \<Rightarrow> PointENU \<Rightarrow> real \<Rightarrow> int \<times> World" where
  "BuildStopDecision env w stop_line_s p heading =
     (if stop_line_s < 0 \<or> stop_line_s > Length env then (- 1, w)
      else
        let pull_over_reason = reason (pull_over_status env w);
            virtual_obstacle_id = PULL_OVER_VO_ID_PREFIX env @ Reason_Name env pull_over_reason
        in case CreateStopObstacle env virtual_obstacle_id stop_line_s of
             None \<Rightarrow> (- 1, w)
           | Some ob \<Rightarrow>
               (case AddObstacle env ob of
                  None \<Rightarrow> (- 1, w)
                | Some stop_wall \<Rightarrow>
                    let stop = \<lparr>reason_code = STOP_REASON_PULL_OVER,
                                distance_s = - stop_distance (config env),
                                stop_heading = heading,
                                stop_decision_point = \<lparr>pt_x = pt_x p, pt_y = pt_y p\<rparr>\<rparr>
                    in (0, w\<lparr>path_obstacles := path_obstacles w @ [stop_wall],
                              longitudinal_decisions := longitudinal_decisions w @
                                [\<lparr>ld_tag = rule_id_name env,
                                  ld_object_id = Id (obstacle stop_wall),
                                  ld_stop = stop\<rparr>]\<rparr>)))"

definition BuildPullOverStop :: "Env \<Rightarrow> World \<Rightarrow> PointENU \<Rightarrow> int \<times> World" where
  "BuildPullOverStop env w p =
     (let stop_point_sl = XYToSL env p;
          heading = rp_heading (GetReferencePoint env (sl_s stop_point_sl));
          w1 = snd (BuildStopDecision env w (sl_s stop_point_sl) p heading);
          status = pull_over_status env w1;
          start_point_sl = \<lparr>sl_s = sl_s stop_point_sl - operation_length (config env),
                            sl_l = 0\<rparr>;
          start = SLToXY env start_point_sl
      in (0, w1\<lparr>pull_over := Some (status
                  \<lparr>start_point := Some \<lparr>pt_x = pt_x start, pt_y = pt_y start\<rparr>,
                   stop_point := Some \<lparr>pt_x = pt_x p, pt_y = pt_y p\<rparr>,
                   stop_point_heading := Some heading\<rparr>)\<rparr>))"

definition BuildInLaneStop :: "Env \<Rightarrow> World \<Rightarrow> PointENU \<Rightarrow> int \<times> World" where
  "BuildInLaneStop env w pull_over_stop_point =
     (let stop_point_sl = XYToSL env pull_over_stop_point;
          point = GetReferencePoint env (sl_s stop_point_sl);
          p = \<lparr>pt_x = rp_x point, pt_y = rp_y point\<rparr>;
          stop_line_s = sl_s stop_point_sl - stop_distance (config env);
          heading = rp_heading (GetReferencePoint env (sl_s stop_point_sl));
          w1 = snd (BuildStopDecision env w stop_line_s p heading)
      in (0, w1\<lparr>pull_over := None\<rparr>))"

subsection \<open>The rule\<close>

text \<open>\<^verbatim>\<open>ApplyRule\<close> returns \<^verbatim>\<open>Status::OK()\<close> on every path that returns; the
  result here is the world it leaves.\<close>

definition ApplyRule :: "Env \<Rightarrow> World \<Rightarrow> Fault + World" where
  "ApplyRule env w =
     (if \<not> IsPullOver w then Inr w
      else
        (case GetPullOverStop env w (default_point env) of
           Inl fault \<Rightarrow> Inl fault
         | Inr (ret, p) \<Rightarrow>
             if ret = 0 then Inr (snd (BuildPullOverStop env w p))
             else Inr (snd (BuildInLaneStop env w p))))"

section \<open>Scenarios\<close>

text \<open>A straight reference line along the \<open>x\<close> axis, 200 long, with one straight
  lane without right neighbours, a right road width of 3.5 everywhere, no overlap zones,
  and the vehicle's front edge at arc length 100.\<close>

definition straight_lane :: Lane where
  "straight_lane = \<lparr>lane_id = ''lane_1'', turn = NO_TURN, lane_type = CITY_DRIVING,
     right_neighbor_forward_lane_id = []\<rparr>"

definition example_env :: Env where
  "example_env =
     \<lparr>Length = 200,
      XYToSL = (\<lambda>p. \<lparr>sl_s = pt_x p, sl_l = pt_y p\<rparr>),
      SLToXY = (\<lambda>sl. \<lparr>pt_x = sl_s sl, pt_y = sl_l sl\<rparr>),
      GetReferencePoint = (\<lambda>s. \<lparr>rp_x = s, rp_y = 0, rp_heading = 0\<rparr>),
      GetRoadWidth = (\<lambda>s. Some (3.5, 3.5)),
      GetLaneFromS = (\<lambda>s. [straight_lane]),
      crosswalk_overlaps = [],
      junction_overlaps = [],
      clear_area_overlaps = [],
      speed_bump_overlaps = [],
      BaseMapPtr = Some (\<lambda>i. None),
      AdcSlBoundary = \<lparr>start_s = 95.2, end_s = 100, start_l = - 1.05, end_l = 1.05\<rparr>,
      vehicle_width = 2.1,
      vehicle_length = 4.8,
      config = \<lparr>operation_length = 3, buffer_to_boundary = 0.3, max_check_distance = 40,
                plan_distance = 10, stop_distance = 1\<rparr>,
      rule_id_name = ''PULL_OVER'',
      PARKING_SPOT_LONGITUDINAL_BUFFER = 1,
      PULL_OVER_VO_ID_PREFIX = ''PO_'',
      Reason_Name =
        (\<lambda>r. case r of DESTINATION \<Rightarrow> ''DESTINATION'' | EMERGENCY \<Rightarrow> ''EMERGENCY''),
      CreateStopObstacle = (\<lambda>i s. Some \<lparr>Id = i, IsVirtual = True, IsStatic = True\<rparr>),
      AddObstacle = (\<lambda>ob. Some \<lparr>obstacle = ob,
         PerceptionSLBoundary = \<lparr>start_s = 0, end_s = 0, start_l = 0, end_l = 0\<rparr>\<rparr>),
      default_point = \<lparr>pt_x = 0, pt_y = 0\<rparr>,
      default_reason = DESTINATION\<rparr>"

text \<open>Pull-over requested, nothing cached, no obstacles.\<close>

definition active_status :: PullOverStatus where
  "active_status = \<lparr>in_pull_over = True, reason = DESTINATION, start_point = None,
     stop_point = None, stop_point_heading = None\<rparr>"

definition example_world :: World where
  "example_world = \<lparr>pull_over = Some active_status, path_obstacles = [],
     longitudinal_decisions = []\<rparr>"

text \<open>A static obstacle on the right edge of the road between 108 and 118, and the same
  obstacle marked virtual.\<close>

definition parked_car :: PathObstacle where
  "parked_car = \<lparr>obstacle = \<lparr>Id = ''4711'', IsVirtual = False, IsStatic = True\<rparr>,
     PerceptionSLBoundary = \<lparr>start_s = 108, end_s = 118, start_l = - 3, end_l = 0\<rparr>\<rparr>"

definition virtual_car :: PathObstacle where
  "virtual_car = parked_car\<lparr>obstacle := (obstacle parked_car)\<lparr>IsVirtual := True\<rparr>\<rparr>"

definition blocked_world :: World where
  "blocked_world = example_world\<lparr>path_obstacles := [parked_car]\<rparr>"

text \<open>Pull-over requested with a cached stop at arc length 205, beyond the end of the
  reference line; and with the stop at 110 that the scan of the example finds.\<close>

definition stale_status :: PullOverStatus where
  "stale_status = active_status
     \<lparr>start_point := Some \<lparr>pt_x = 202, pt_y = 0\<rparr>,
      stop_point := Some \<lparr>pt_x = 205, pt_y = - 2.15\<rparr>,
      stop_point_heading := Some 0\<rparr>"

definition stale_world :: World where
  "stale_world = example_world\<lparr>pull_over := Some stale_status\<rparr>"

definition cached_status :: PullOverStatus where
  "cached_status = active_status
     \<lparr>start_point := Some \<lparr>pt_x = 107, pt_y = 0\<rparr>,
      stop_point := Some \<lparr>pt_x = 110, pt_y = - 2.15\<rparr>,
      stop_point_heading := Some 0\<rparr>"

definition cached_world :: World where
  "cached_world = example_world\<lparr>pull_over := Some cached_status\<rparr>"

text \<open>The cached stop at 110 with the parked obstacle now standing on it.\<close>

definition blocked_cached_world :: World where
  "blocked_cached_world = cached_world\<lparr>path_obstacles := [parked_car]\<rparr>"

text \<open>Variants of the example: the frame refuses to create the stop obstacle; no lane is
  found anywhere; the reference line ends at 103, three units ahead of the front edge, and
  has no lane beyond its end; the scan horizon is 10.\<close>

definition no_obstacle_env :: Env where
  "no_obstacle_env = example_env\<lparr>CreateStopObstacle := (\<lambda>i s. None)\<rparr>"

definition no_lane_env :: Env where
  "no_lane_env = example_env\<lparr>GetLaneFromS := (\<lambda>s. [])\<rparr>"

definition short_line_env :: Env where
  "short_line_env = example_env
     \<lparr>Length := 103, GetLaneFromS := (\<lambda>s. if s \<le> 103 then [straight_lane] else [])\<rparr>"

definition short_scan_env :: Env where
  "short_scan_env = example_env\<lparr>config := (config example_env)\<lparr>max_check_distance := 10\<rparr>\<rparr>"

text \<open>Variants with a lane in a left turn, with a lane that has a city-driving lane to
  its right, and with a crosswalk over the arc lengths 104 to 106.\<close>

definition left_turn_lane :: Lane where
  "left_turn_lane = straight_lane\<lparr>turn := LEFT_TURN\<rparr>"

definition inner_lane :: Lane where
  "inner_lane = straight_lane\<lparr>right_neighbor_forward_lane_id := [''lane_2'']\<rparr>"

definition two_lane_map :: "string \<Rightarrow> Lane option" where
  "two_lane_map i =
     (if i = ''lane_2'' then Some (straight_lane\<lparr>lane_id := ''lane_2''\<rparr>) else None)"

definition turn_env :: Env where
  "turn_env = example_env\<lparr>GetLaneFromS := (\<lambda>s. [left_turn_lane])\<rparr>"

definition inner_env :: Env where
  "inner_env = example_env
     \<lparr>GetLaneFromS := (\<lambda>s. [inner_lane]), BaseMapPtr := Some two_lane_map\<rparr>"

definition crosswalk_env :: Env where
  "crosswalk_env = example_env
     \<lparr>crosswalk_overlaps := [\<lparr>ov_start_s = 104, ov_end_s = 106\<rparr>]\<rparr>"

text \<open>The vehicle eight units further on the same reference line; the stop wall that the
  example's frame creates; and the world that the fallback leaves in the blocked
  scenario.\<close>

definition moved_env :: Env where
  "moved_env = example_env
     \<lparr>AdcSlBoundary := \<lparr>start_s = 103.2, end_s = 108, start_l = - 1.05, end_l = 1.05\<rparr>\<rparr>"

definition example_stop_wall :: PathObstacle where
  "example_stop_wall =
     \<lparr>obstacle = \<lparr>Id = ''PO_DESTINATION'', IsVirtual = True, IsStatic = True\<rparr>,
      PerceptionSLBoundary = \<lparr>start_s = 0, end_s = 0, start_l = 0, end_l = 0\<rparr>\<rparr>"

definition fallback_world :: World where
  "fallback_world =
     \<lparr>pull_over = None,
      path_obstacles = [parked_car, example_stop_wall],
      longitudinal_decisions =
        [\<lparr>ld_tag = ''PULL_OVER'', ld_object_id = ''PO_DESTINATION'',
          ld_stop = \<lparr>reason_code = STOP_REASON_PULL_OVER, distance_s = - 1,
                     stop_heading = 0,
                     stop_decision_point = \<lparr>pt_x = 110, pt_y = 0\<rparr>\<rparr>\<rparr>]\<rparr>"

lemmas scenario_defs = example_env_def example_world_def active_status_def straight_lane_def
  parked_car_def virtual_car_def blocked_world_def stale_status_def stale_world_def
  cached_status_def cached_world_def blocked_cached_world_def no_obstacle_env_def
  no_lane_env_def short_line_env_def short_scan_env_def left_turn_lane_def inner_lane_def
  two_lane_map_def turn_env_def inner_env_def crosswalk_env_def
  moved_env_def example_stop_wall_def fallback_world_def

lemmas rule_defs = FindPullOverStop_def scan_iterations_def scan_loop.simps check_sample_def
  OnOverlap_def in_overlaps_def kDistanceUnit_def FindPullOverStop_s_def stop_point_sl_at_def
  road_right_width_at_def IsValidStop_sl_def IsValidStop_def parking_spot_boundary_def
  GetPullOverStop_def cached_stop_point_def pull_over_status_def default_status_def
  IsPullOver_def BuildStopDecision_def BuildPullOverStop_def BuildInLaneStop_def ApplyRule_def
  Let_def

section \<open>Properties of the validator\<close>

lemma check_obstacles_blocked:
  assumes "po \<in> set obs" "IsStatic (obstacle po)" "\<not> IsVirtual (obstacle po)"
    and "\<not> (start_s spot > end_s (PerceptionSLBoundary po) \<or>
            start_s (PerceptionSLBoundary po) > end_s spot \<or>
            start_l spot > end_l (PerceptionSLBoundary po) \<or>
            start_l (PerceptionSLBoundary po) > end_l spot)"
  shows "\<not> check_obstacles spot obs"
  using assms by (induction obs) (auto simp: Let_def)

lemma check_obstacles_skip:
  assumes "IsVirtual (obstacle po) \<or> \<not> IsStatic (obstacle po)"
  shows "check_obstacles spot (before @ po # after) = check_obstacles spot (before @ after)"
  using assms by (induction before) (auto simp: Let_def)

text \<open>Claim C5. The validator returns false whenever the candidate arc length minus the
  arc length of the vehicle's front edge is less than \<open>operation_length\<close>, whatever the
  obstacles \<open>obs\<close> of the path decision are.\<close>

theorem IsValidStop_minimum_clearance:
  "sl_s stop_point_sl - end_s (AdcSlBoundary env) < operation_length (config env) \<Longrightarrow>
   IsValidStop_sl env (w\<lparr>path_obstacles := obs\<rparr>) stop_point_sl = False"
  by (simp add: IsValidStop_sl_def)

theorem IsValidStop_minimum_clearance_witness:
  "sl_s \<lparr>sl_s = 102, sl_l = - 2.15\<rparr> - end_s (AdcSlBoundary example_env)
     < operation_length (config example_env) \<and>
   IsValidStop_sl example_env (example_world\<lparr>path_obstacles := []\<rparr>)
     \<lparr>sl_s = 102, sl_l = - 2.15\<rparr> = False"
  using IsValidStop_minimum_clearance
    [where stop_point_sl = "\<lparr>sl_s = 102, sl_l = - 2.15\<rparr>" and env = example_env
       and w = example_world and obs = "[]"]
  by (simp add: example_env_def)

text \<open>Claim C4. First part: when a static, non-virtual obstacle \<open>po\<close> of the path
  decision has an SL box that shares a point \<open>(s, l)\<close> with the parking rectangle of the
  candidate, the validator returns false, wherever \<open>po\<close> stands in the list and whatever
  follows it. Second part: an obstacle that is virtual or not static is skipped, that is,
  the validator returns what it returns without it; so with nothing else in the way it
  returns true.\<close>

theorem IsValidStop_obstacle_overlap:
  fixes s l :: real
  shows
  "(po \<in> set (path_obstacles w) \<and> IsStatic (obstacle po) \<and> \<not> IsVirtual (obstacle po) \<and>
    start_s (PerceptionSLBoundary po) \<le> s \<and> s \<le> end_s (PerceptionSLBoundary po) \<and>
    start_l (PerceptionSLBoundary po) \<le> l \<and> l \<le> end_l (PerceptionSLBoundary po) \<and>
    start_s (parking_spot_boundary env stop_point_sl) \<le> s \<and>
    s \<le> end_s (parking_spot_boundary env stop_point_sl) \<and>
    start_l (parking_spot_boundary env stop_point_sl) \<le> l \<and>
    l \<le> end_l (parking_spot_boundary env stop_point_sl)
    \<longrightarrow> IsValidStop_sl env w stop_point_sl = False) \<and>
   (IsVirtual (obstacle po) \<or> \<not> IsStatic (obstacle po)
    \<longrightarrow> IsValidStop_sl env (w\<lparr>path_obstacles := before @ po # after\<rparr>) stop_point_sl =
        IsValidStop_sl env (w\<lparr>path_obstacles := before @ after\<rparr>) stop_point_sl)"
proof (intro conjI impI)
  assume a: "po \<in> set (path_obstacles w) \<and> IsStatic (obstacle po) \<and> \<not> IsVirtual (obstacle po) \<and>
    start_s (PerceptionSLBoundary po) \<le> s \<and> s \<le> end_s (PerceptionSLBoundary po) \<and>
    start_l (PerceptionSLBoundary po) \<le> l \<and> l \<le> end_l (PerceptionSLBoundary po) \<and>
    start_s (parking_spot_boundary env stop_point_sl) \<le> s \<and>
    s \<le> end_s (parking_spot_boundary env stop_point_sl) \<and>
    start_l (parking_spot_boundary env stop_point_sl) \<le> l \<and>
    l \<le> end_l (parking_spot_boundary env stop_point_sl)"
  then have "\<not> check_obstacles (parking_spot_boundary env stop_point_sl) (path_obstacles w)"
    by (intro check_obstacles_blocked [of po]) auto
  then show "IsValidStop_sl env w stop_point_sl = False"
    by (simp add: IsValidStop_sl_def)
next
  assume "IsVirtual (obstacle po) \<or> \<not> IsStatic (obstacle po)"
  then show "IsValidStop_sl env (w\<lparr>path_obstacles := before @ po # after\<rparr>) stop_point_sl =
        IsValidStop_sl env (w\<lparr>path_obstacles := before @ after\<rparr>) stop_point_sl"
    by (simp add: IsValidStop_sl_def check_obstacles_skip)
qed

theorem IsValidStop_obstacle_overlap_witness:
  "parked_car \<in> set (path_obstacles blocked_world) \<and>
   IsStatic (obstacle parked_car) \<and> \<not> IsVirtual (obstacle parked_car) \<and>
   IsValidStop_sl example_env blocked_world \<lparr>sl_s = 110, sl_l = - 2.15\<rparr> = False \<and>
   IsVirtual (obstacle virtual_car) \<and>
   IsValidStop_sl example_env (blocked_world\<lparr>path_obstacles := [] @ virtual_car # []\<rparr>)
     \<lparr>sl_s = 110, sl_l = - 2.15\<rparr> = True"
  using IsValidStop_obstacle_overlap
    [where po = parked_car and w = blocked_world and s = 110 and l = "- 2"
       and env = example_env and stop_point_sl = "\<lparr>sl_s = 110, sl_l = - 2.15\<rparr>"]
    IsValidStop_obstacle_overlap
    [where po = virtual_car and w = blocked_world and before = "[]" and after = "[]"
       and env = example_env and stop_point_sl = "\<lparr>sl_s = 110, sl_l = - 2.15\<rparr>"]
  by (simp add: blocked_world_def example_world_def parked_car_def virtual_car_def
      parking_spot_boundary_def example_env_def IsValidStop_sl_def)

section \<open>Properties of the decision builders\<close>

lemma BuildStopDecision_cases:
  "BuildStopDecision env w stop_line_s p heading = (- 1, w) \<or>
   (\<exists>ob stop_wall.
      0 \<le> stop_line_s \<and> stop_line_s \<le> Length env \<and>
      CreateStopObstacle env
        (PULL_OVER_VO_ID_PREFIX env @ Reason_Name env (reason (pull_over_status env w)))
        stop_line_s = Some ob \<and>
      AddObstacle env ob = Some stop_wall \<and>
      BuildStopDecision env w stop_line_s p heading =
        (0, w\<lparr>path_obstacles := path_obstacles w @ [stop_wall],
              longitudinal_decisions := longitudinal_decisions w @
                [\<lparr>ld_tag = rule_id_name env, ld_object_id = Id (obstacle stop_wall),
                  ld_stop = \<lparr>reason_code = STOP_REASON_PULL_OVER,
                             distance_s = - stop_distance (config env),
                             stop_heading = heading,
                             stop_decision_point = p\<rparr>\<rparr>]\<rparr>))"
  by (auto simp: BuildStopDecision_def Let_def split: option.splits)

lemma BuildStopDecision_pull_over [simp]:
  "pull_over (snd (BuildStopDecision env w stop_line_s p heading)) = pull_over w"
  using BuildStopDecision_cases [of env w stop_line_s p heading] by auto

lemma BuildStopDecision_failure:
  "fst (BuildStopDecision env w stop_line_s p heading) = - 1 \<Longrightarrow>
   snd (BuildStopDecision env w stop_line_s p heading) = w"
  using BuildStopDecision_cases [of env w stop_line_s p heading] by auto

lemma BuildStopDecision_decisions:
  "longitudinal_decisions (snd (BuildStopDecision env w stop_line_s p heading)) =
     longitudinal_decisions w \<or>
   (\<exists>d. longitudinal_decisions (snd (BuildStopDecision env w stop_line_s p heading)) =
      longitudinal_decisions w @ [d] \<and>
      stop_decision_point (ld_stop d) = p \<and> stop_heading (ld_stop d) = heading \<and>
      distance_s (ld_stop d) = - stop_distance (config env) \<and>
      0 \<le> stop_line_s \<and> stop_line_s \<le> Length env)"
  using BuildStopDecision_cases [of env w stop_line_s p heading] by auto

text \<open>Claim C10. \<^verbatim>\<open>BuildPullOverStop\<close> returns 0 and writes the start point, the stop
  point and the heading into the pull-over status on every path, so the stop point is what
  the next cycle finds cached; when \<^verbatim>\<open>BuildStopDecision\<close> returned \<open>-1\<close> this happens
  although no longitudinal decision and no stop wall were added.\<close>

theorem BuildPullOverStop_records_status_on_failure:
  "(let s = sl_s (XYToSL env p);
        heading = rp_heading (GetReferencePoint env s);
        w' = snd (BuildPullOverStop env w p)
    in fst (BuildPullOverStop env w p) = 0 \<and>
       (\<exists>status. pull_over w' = Some status \<and>
          start_point status =
            Some (SLToXY env \<lparr>sl_s = s - operation_length (config env), sl_l = 0\<rparr>) \<and>
          stop_point status = Some p \<and>
          stop_point_heading status = Some heading) \<and>
       cached_stop_point (pull_over_status env w') = Some p \<and>
       (fst (BuildStopDecision env w s p heading) = - 1 \<longrightarrow>
          longitudinal_decisions w' = longitudinal_decisions w \<and>
          path_obstacles w' = path_obstacles w))"
  by (simp add: BuildPullOverStop_def Let_def cached_stop_point_def pull_over_status_def
      BuildStopDecision_failure)

theorem BuildPullOverStop_records_status_on_failure_witness:
  "fst (BuildStopDecision no_obstacle_env example_world 110 \<lparr>pt_x = 110, pt_y = - 2.15\<rparr> 0)
     = - 1 \<and>
   snd (BuildPullOverStop no_obstacle_env example_world \<lparr>pt_x = 110, pt_y = - 2.15\<rparr>) =
     \<lparr>pull_over = Some \<lparr>in_pull_over = True, reason = DESTINATION,
                        start_point = Some \<lparr>pt_x = 107, pt_y = 0\<rparr>,
                        stop_point = Some \<lparr>pt_x = 110, pt_y = - 2.15\<rparr>,
                        stop_point_heading = Some 0\<rparr>,
      path_obstacles = [], longitudinal_decisions = []\<rparr>"
  using BuildPullOverStop_records_status_on_failure
    [where env = no_obstacle_env and w = example_world
       and p = "\<lparr>pt_x = 110, pt_y = - 2.15\<rparr>"]
  by (simp add: scenario_defs rule_defs)

section \<open>Arc lengths outside the reference line\<close>

lemma check_sample_not_Found:
  "FindPullOverStop_s env w s = None \<Longrightarrow> check_sample env w c s \<noteq> Found q"
  by (auto simp: check_sample_def split: option.splits sum.splits)


text \<open>Claim C9. An arc length \<open>s\<close> outside \<open>[0, Length]\<close> makes the function that
  meets it fail, with a value and no fault: \<^verbatim>\<open>IsValidStop\<close> returns false (on the SL
  point and on a point that projects to \<open>s\<close>), \<^verbatim>\<open>FindPullOverStop(s, _)\<close> returns
  \<open>-1\<close> (\<open>None\<close>), \<^verbatim>\<open>BuildStopDecision\<close> returns \<open>-1\<close> and leaves the world as it
  was. The callers go on without a point: the scan does not return at such a sample, a
  cached stop point at \<open>s\<close> is not reused and \<^verbatim>\<open>GetPullOverStop\<close> returns what the
  scan finds, and the two builders add no stop decision.\<close>

theorem out_of_range_is_failure:
  assumes "s < 0 \<or> s > Length env"
  shows "IsValidStop_sl env w \<lparr>sl_s = s, sl_l = l\<rparr> = False \<and>
    (sl_s (XYToSL env p) = s \<longrightarrow> IsValidStop env w p = False) \<and>
    FindPullOverStop_s env w s = None \<and>
    BuildStopDecision env w s p heading = (- 1, w) \<and>
    (\<forall>q. check_sample env w check_length s \<noteq> Found q) \<and>
    (cached_stop_point (pull_over_status env w) = Some c \<and> sl_s (XYToSL env c) = s \<longrightarrow>
       GetPullOverStop env w p =
         (case FindPullOverStop env w of
            Inl fault \<Rightarrow> Inl fault
          | Inr (Some found) \<Rightarrow> Inr (0, found)
          | Inr None \<Rightarrow> Inr (- 1, c))) \<and>
    (sl_s (XYToSL env p) = s \<longrightarrow>
       longitudinal_decisions (snd (BuildPullOverStop env w p)) = longitudinal_decisions w) \<and>
    (sl_s (XYToSL env p) - stop_distance (config env) = s \<longrightarrow>
       snd (BuildInLaneStop env w p) = w\<lparr>pull_over := None\<rparr>)"
proof -
  have valid: "IsValidStop_sl env w sl = False" if "sl_s sl = s" for sl
    using assms that by (auto simp: IsValidStop_sl_def)
  have find: "FindPullOverStop_s env w s = None"
    using assms by (auto simp: FindPullOverStop_s_def)
  have build: "BuildStopDecision env w s q h = (- 1, w)" for q h
    using assms by (auto simp: BuildStopDecision_def)
  have sample: "\<forall>q. check_sample env w check_length s \<noteq> Found q"
    using find by (simp add: check_sample_not_Found)
  have reuse: "GetPullOverStop env w p =
         (case FindPullOverStop env w of
            Inl fault \<Rightarrow> Inl fault
          | Inr (Some found) \<Rightarrow> Inr (0, found)
          | Inr None \<Rightarrow> Inr (- 1, c))"
    if "cached_stop_point (pull_over_status env w) = Some c" "sl_s (XYToSL env c) = s"
    using that valid [of "XYToSL env c"]
    by (simp add: GetPullOverStop_def IsValidStop_def)
  have full: "longitudinal_decisions (snd (BuildPullOverStop env w p)) = longitudinal_decisions w"
    if "sl_s (XYToSL env p) = s"
    using that build by (simp add: BuildPullOverStop_def Let_def)
  have in_lane: "snd (BuildInLaneStop env w p) = w\<lparr>pull_over := None\<rparr>"
    if "sl_s (XYToSL env p) - stop_distance (config env) = s"
    using that build by (simp add: BuildInLaneStop_def Let_def)
  show ?thesis
    using valid [of "\<lparr>sl_s = s, sl_l = l\<rparr>"] valid [of "XYToSL env p"] find build sample reuse
      full in_lane
    by (simp add: IsValidStop_def)
qed

theorem out_of_range_is_failure_witness:
  "(205 < (0::real) \<or> 205 > Length example_env) \<and>
   IsValidStop_sl example_env stale_world \<lparr>sl_s = 205, sl_l = - 2.15\<rparr> = False \<and>
   IsValidStop example_env stale_world \<lparr>pt_x = 205, pt_y = - 2.15\<rparr> = False \<and>
   FindPullOverStop_s example_env stale_world 205 = None \<and>
   BuildStopDecision example_env stale_world 205 \<lparr>pt_x = 205, pt_y = - 2.15\<rparr> 0
     = (- 1, stale_world) \<and>
   check_sample example_env stale_world 5 205 = Continue 0 \<and>
   GetPullOverStop example_env stale_world (default_point example_env) =
     Inr (0, \<lparr>pt_x = 110, pt_y = - 2.15\<rparr>) \<and>
   longitudinal_decisions
     (snd (BuildPullOverStop example_env stale_world \<lparr>pt_x = 205, pt_y = - 2.15\<rparr>)) = []"
  using out_of_range_is_failure
    [where s = 205 and env = example_env and w = stale_world and l = "- 2.15"
       and p = "\<lparr>pt_x = 205, pt_y = - 2.15\<rparr>" and heading = 0 and check_length = 5
       and c = "\<lparr>pt_x = 205, pt_y = - 2.15\<rparr>"]
  by (simp add: scenario_defs rule_defs)

section \<open>Properties of the forward scan\<close>

lemma rightmost_driving_lane_loaded:
  "BaseMapPtr env = Some GetLaneById \<Longrightarrow>
   rightmost_driving_lane env ids =
     Inr (\<not> (\<exists>i \<in> set ids. \<exists>nl. GetLaneById i = Some nl \<and> lane_type nl = CITY_DRIVING))"
  by (induction ids) (auto split: option.splits)

text \<open>Claim C6. At a sample whose lane is found (and with the base map loaded), a lane
  in a turn, a right neighbour lane of type city driving, or an overlap zone makes the pass
  continue with the run length 0. A sample that passes the three checks with the run
  length, grown by the step, at or above \<open>plan_distance\<close> (so also exactly at it) is
  validated: the pass returns the point found, or continues with the run length 0 when the
  validation fails. One step less, and the pass continues with the grown run length and
  validates nothing. The last part ties \<open>Continue c\<close> to the loop: the next pass starts
  with \<^verbatim>\<open>check_length = c\<close>.\<close>

theorem check_sample_run_reset:
  assumes "pick_lane (GetLaneFromS env check_s) = Some lane"
    and "BaseMapPtr env = Some GetLaneById"
  shows
    "(turn lane \<noteq> NO_TURN \<or>
      (\<exists>i \<in> set (right_neighbor_forward_lane_id lane).
         \<exists>nl. GetLaneById i = Some nl \<and> lane_type nl = CITY_DRIVING) \<or>
      OnOverlap env check_s
      \<longrightarrow> check_sample env w check_length check_s = Continue 0) \<and>
     (turn lane = NO_TURN \<and>
      \<not> (\<exists>i \<in> set (right_neighbor_forward_lane_id lane).
         \<exists>nl. GetLaneById i = Some nl \<and> lane_type nl = CITY_DRIVING) \<and>
      \<not> OnOverlap env check_s
      \<longrightarrow> (check_length + kDistanceUnit \<ge> plan_distance (config env)
            \<longrightarrow> check_sample env w check_length check_s =
                (case FindPullOverStop_s env w check_s of
                   None \<Rightarrow> Continue 0
                 | Some point \<Rightarrow> Found point)) \<and>
          (check_length + kDistanceUnit < plan_distance (config env)
            \<longrightarrow> check_sample env w check_length check_s =
                Continue (check_length + kDistanceUnit))) \<and>
     (total_check_length < max_check_distance (config env) \<and>
      check_sample env w check_length (check_s' + kDistanceUnit) = Continue c
      \<longrightarrow> scan_loop env w check_length total_check_length check_s' iterations =
          scan_loop env w c (total_check_length + kDistanceUnit) (check_s' + kDistanceUnit)
            (Suc iterations))"
proof -
  note rm = rightmost_driving_lane_loaded [OF assms(2), of "right_neighbor_forward_lane_id lane"]
  have reset: "check_sample env w check_length check_s = Continue 0"
    if "turn lane \<noteq> NO_TURN \<or>
      (\<exists>i \<in> set (right_neighbor_forward_lane_id lane).
         \<exists>nl. GetLaneById i = Some nl \<and> lane_type nl = CITY_DRIVING) \<or>
      OnOverlap env check_s"
    using that assms(1) rm by (auto simp: check_sample_def)
  have pass: "check_sample env w check_length check_s =
      (if check_length + kDistanceUnit \<ge> plan_distance (config env)
       then (case FindPullOverStop_s env w check_s of
               None \<Rightarrow> Continue 0
             | Some point \<Rightarrow> Found point)
       else Continue (check_length + kDistanceUnit))"
    if "turn lane = NO_TURN"
      "\<not> (\<exists>i \<in> set (right_neighbor_forward_lane_id lane).
         \<exists>nl. GetLaneById i = Some nl \<and> lane_type nl = CITY_DRIVING)"
      "\<not> OnOverlap env check_s"
    using that assms(1) rm by (simp add: check_sample_def)
  have loop: "scan_loop env w check_length total_check_length check_s' iterations =
          scan_loop env w c (total_check_length + kDistanceUnit) (check_s' + kDistanceUnit)
            (Suc iterations)"
    if "total_check_length < max_check_distance (config env)"
      "check_sample env w check_length (check_s' + kDistanceUnit) = Continue c"
    using that by (subst scan_loop.simps) simp
  show ?thesis
    using reset pass loop by simp
qed

theorem check_sample_run_reset_witness:
  "check_sample turn_env example_world 5 105 = Continue 0 \<and>
   check_sample inner_env example_world 5 105 = Continue 0 \<and>
   check_sample crosswalk_env example_world 5 105 = Continue 0 \<and>
   check_sample example_env blocked_world 5 110 = Continue 0 \<and>
   check_sample example_env example_world 5 110 = Found \<lparr>pt_x = 110, pt_y = - 2.15\<rparr> \<and>
   check_sample example_env example_world 0 105 = Continue 5 \<and>
   scan_loop example_env example_world 0 0 100 0 = scan_loop example_env example_world 5 5 105 1"
  using
    check_sample_run_reset [where env = turn_env and check_s = 105 and lane = left_turn_lane
      and GetLaneById = "\<lambda>i. None" and w = example_world and check_length = 5]
    check_sample_run_reset [where env = inner_env and check_s = 105 and lane = inner_lane
      and GetLaneById = two_lane_map and w = example_world and check_length = 5]
    check_sample_run_reset [where env = crosswalk_env and check_s = 105 and lane = straight_lane
      and GetLaneById = "\<lambda>i. None" and w = example_world and check_length = 5]
    check_sample_run_reset [where env = example_env and check_s = 110 and lane = straight_lane
      and GetLaneById = "\<lambda>i. None" and w = blocked_world and check_length = 5]
    check_sample_run_reset [where env = example_env and check_s = 110 and lane = straight_lane
      and GetLaneById = "\<lambda>i. None" and w = example_world and check_length = 5]
    check_sample_run_reset [where env = example_env and check_s = 105 and lane = straight_lane
      and GetLaneById = "\<lambda>i. None" and w = example_world and check_length = 0
      and total_check_length = 0 and check_s' = 100 and c = 5 and iterations = 0]
  by (simp add: scenario_defs rule_defs del: scan_loop.simps)

subsection \<open>The number of passes\<close>

lemma ceiling_step:
  fixes d :: real
  assumes "0 < d"
  shows "Suc (nat \<lceil>(d - 5) / 5\<rceil>) = nat \<lceil>d / 5\<rceil>"
proof -
  have "(d - 5) / 5 = d / 5 - 1" by simp
  then have "\<lceil>(d - 5) / 5\<rceil> = \<lceil>d / 5 - 1\<rceil>" by (simp only:)
  then have "\<lceil>(d - 5) / 5\<rceil> = \<lceil>d / 5\<rceil> - 1" by (simp only: ceiling_diff_one)
  moreover have "0 < \<lceil>d / 5\<rceil>" using assms by simp
  ultimately show ?thesis by linarith
qed

lemma scan_loop_iterations:
  "fst (scan_loop env w check_length total_check_length check_s iterations) \<le>
     iterations + nat \<lceil>(max_check_distance (config env) - total_check_length) / 5\<rceil>"
proof (induction env w check_length total_check_length check_s iterations
    rule: scan_loop.induct)
  case (1 env w check_length total_check_length check_s iterations)
  let ?d = "max_check_distance (config env) - total_check_length"
  show ?case
  proof (cases "total_check_length < max_check_distance (config env)")
    case False
    then show ?thesis by (subst scan_loop.simps) simp
  next
    case True
    then have step: "Suc (nat \<lceil>(?d - 5) / 5\<rceil>) = nat \<lceil>?d / 5\<rceil>"
      by (intro ceiling_step) simp
    show ?thesis
    proof (cases "check_sample env w check_length (check_s + kDistanceUnit)")
      case (Continue c)
      have "fst (scan_loop env w c (total_check_length + kDistanceUnit)
              (check_s + kDistanceUnit) (Suc iterations)) \<le>
            Suc iterations + nat \<lceil>(?d - 5) / 5\<rceil>"
        using "1.IH" [OF True Continue] by (simp add: kDistanceUnit_def algebra_simps)
      then show ?thesis
        using True Continue step by (subst scan_loop.simps) simp
    next
      case (Found point)
      then show ?thesis
        using True step by (subst scan_loop.simps) simp
    next
      case (Crash fault)
      then show ?thesis
        using True step by (subst scan_loop.simps) simp
    qed
  qed
qed

text \<open>The scan makes at most \<open>\<lceil>max_check_distance / 5\<rceil>\<close> passes, on the paths that
  return and on the paths that fault alike.\<close>

lemma scan_iterations_bounded:
  "scan_iterations env w \<le> nat \<lceil>max_check_distance (config env) / 5\<rceil>"
  using scan_loop_iterations [of env w 0 0 "end_s (AdcSlBoundary env)" 0]
  by (simp add: scan_iterations_def)

text \<open>Claim C1. The bound on the passes holds (\<open>scan_iterations_bounded\<close>), but the scan
  does not always end without a fault: on a reference line that ends three units ahead of
  the vehicle's front edge, the first sample at 105 has no lane, \<^verbatim>\<open>lane\<close> stays null
  and \<^verbatim>\<open>lane->lane()\<close> dereferences it.\<close>

theorem scanner_null_lane_fault:
  "max_check_distance (config short_line_env) > 0 \<and>
   GetLaneFromS short_line_env 105 = [] \<and>
   FindPullOverStop short_line_env example_world = Inl NullLane"
  by (simp add: scenario_defs rule_defs)

subsection \<open>The example scenario\<close>

lemma check_obstacles_no_physical:
  "\<forall>po \<in> set obs. IsVirtual (obstacle po) \<or> \<not> IsStatic (obstacle po) \<Longrightarrow>
   check_obstacles spot obs"
  by (induction obs) auto

text \<open>Claim C2, as stated, fails: with the front edge at 100 the scan samples 105, 110,
  115, ...; it never samples 113, and it returns the stop at 110.\<close>

theorem scanner_example_selects_113_counterexample:
  "end_s (AdcSlBoundary example_env) = 100 \<and>
   FindPullOverStop example_env example_world = Inr (Some \<lparr>pt_x = 110, pt_y = - 2.15\<rparr>) \<and>
   XYToSL example_env \<lparr>pt_x = 110, pt_y = - 2.15\<rparr> = \<lparr>sl_s = 110, sl_l = - 2.15\<rparr> \<and>
   FindPullOverStop example_env example_world \<noteq>
     Inr (Some (SLToXY example_env \<lparr>sl_s = 113, sl_l = - 2.15\<rparr>))"
  by (simp add: scenario_defs rule_defs)

text \<open>Claim C2, amended. With the front edge at 100, \<open>operation_length = 3\<close>,
  \<open>plan_distance = 10\<close>, straight rightmost lanes and no overlap zone at the samples 105
  and 110, a right road width of 3.5, a vehicle width of 2.1, \<open>buffer_to_boundary = 0.3\<close>,
  no obstacle that is static and not virtual, a reference line at least 113 long and a
  horizon above 5, the scan returns on its second pass the stop at arc length 110 with the
  lateral offset \<open>-2.15\<close>; the validator accepts \<open>(110, -2.15)\<close>, and \<open>(113, -2.15)\<close>
  too.\<close>

theorem scanner_example_selects_110:
  assumes "end_s (AdcSlBoundary env) = 100"
    and "operation_length (config env) = 3"
    and "plan_distance (config env) = 10"
    and "buffer_to_boundary (config env) = 0.3"
    and "vehicle_width env = 2.1"
    and "5 < max_check_distance (config env)"
    and "113 \<le> Length env"
    and "pick_lane (GetLaneFromS env 105) = Some lane_a" "turn lane_a = NO_TURN"
    and "rightmost_driving_lane env (right_neighbor_forward_lane_id lane_a) = Inr True"
    and "pick_lane (GetLaneFromS env 110) = Some lane_b" "turn lane_b = NO_TURN"
    and "rightmost_driving_lane env (right_neighbor_forward_lane_id lane_b) = Inr True"
    and "\<not> OnOverlap env 105" "\<not> OnOverlap env 110"
    and "\<forall>s. GetRoadWidth env s = Some (road_left_width s, 3.5)"
    and "\<forall>po \<in> set (path_obstacles w). IsVirtual (obstacle po) \<or> \<not> IsStatic (obstacle po)"
  shows "FindPullOverStop env w = Inr (Some (SLToXY env \<lparr>sl_s = 110, sl_l = - 2.15\<rparr>)) \<and>
    scan_iterations env w = 2 \<and>
    stop_point_sl_at env 110 = \<lparr>sl_s = 110, sl_l = - 2.15\<rparr> \<and>
    IsValidStop_sl env w \<lparr>sl_s = 110, sl_l = - 2.15\<rparr> \<and>
    IsValidStop_sl env w \<lparr>sl_s = 113, sl_l = - 2.15\<rparr>"
proof -
  have width: "road_right_width_at env s r = 3.5" for s r
    using assms(16) by (simp add: road_right_width_at_def)
  have sl: "stop_point_sl_at env 110 = \<lparr>sl_s = 110, sl_l = - 2.15\<rparr>"
    using assms(4,5) by (simp add: stop_point_sl_at_def Let_def width)
  have clear: "check_obstacles spot (path_obstacles w)" for spot
    using assms(17) by (rule check_obstacles_no_physical)
  have v110: "IsValidStop_sl env w \<lparr>sl_s = 110, sl_l = - 2.15\<rparr>"
    using assms(1,2,7) by (simp add: IsValidStop_sl_def clear)
  have v113: "IsValidStop_sl env w \<lparr>sl_s = 113, sl_l = - 2.15\<rparr>"
    using assms(1,2,7) by (simp add: IsValidStop_sl_def clear)
  have f110: "FindPullOverStop_s env w 110 = Some (SLToXY env \<lparr>sl_s = 110, sl_l = - 2.15\<rparr>)"
    using assms(7) v110 by (simp add: FindPullOverStop_s_def sl)
  have s1: "check_sample env w 0 (100 + kDistanceUnit) = Continue 5"
    using assms(3,8,9,10,14) by (simp add: check_sample_def kDistanceUnit_def)
  have s2: "check_sample env w 5 (100 + kDistanceUnit + kDistanceUnit) =
      Found (SLToXY env \<lparr>sl_s = 110, sl_l = - 2.15\<rparr>)"
    using assms(3,11,12,13,15) f110 by (simp add: check_sample_def kDistanceUnit_def)
  have l2: "scan_loop env w 5 (0 + kDistanceUnit) (100 + kDistanceUnit) (Suc 0) =
      (2, Inr (Some (SLToXY env \<lparr>sl_s = 110, sl_l = - 2.15\<rparr>)))"
    using assms(6) s2 by (subst scan_loop.simps) (simp add: kDistanceUnit_def)
  have l1: "scan_loop env w 0 0 100 0 =
      (2, Inr (Some (SLToXY env \<lparr>sl_s = 110, sl_l = - 2.15\<rparr>)))"
    using assms(6) s1 l2 by (subst scan_loop.simps) simp
  show ?thesis
    using l1 sl v110 v113 assms(1)
    by (simp add: FindPullOverStop_def scan_iterations_def)
qed

theorem scanner_example_selects_110_witness:
  "FindPullOverStop example_env example_world =
     Inr (Some (SLToXY example_env \<lparr>sl_s = 110, sl_l = - 2.15\<rparr>)) \<and>
   scan_iterations example_env example_world = 2 \<and>
   IsValidStop_sl example_env example_world \<lparr>sl_s = 110, sl_l = - 2.15\<rparr> \<and>
   IsValidStop_sl example_env example_world \<lparr>sl_s = 113, sl_l = - 2.15\<rparr>"
  using scanner_example_selects_110
    [where env = example_env and w = example_world and lane_a = straight_lane
       and lane_b = straight_lane and road_left_width = "\<lambda>s. 3.5"]
  by (simp add: scenario_defs OnOverlap_def in_overlaps_def)

section \<open>Properties of the rule\<close>

text \<open>Claim C7, as stated, fails: unchanged obstacles and an unchanged reference line do
  not keep the cached point in use. The example's first cycle persists the stop at 110;
  with the vehicle's front edge then at 108, the same status, obstacles and reference line,
  the cached point is less than \<open>operation_length\<close> ahead, the validator rejects it, the
  scan runs and the stop returned is at 118.\<close>

theorem cached_point_rescanned_counterexample:
  "ApplyRule example_env example_world =
     Inr \<lparr>pull_over = Some cached_status,
          path_obstacles = [example_stop_wall],
          longitudinal_decisions =
            [\<lparr>ld_tag = ''PULL_OVER'', ld_object_id = ''PO_DESTINATION'',
              ld_stop = \<lparr>reason_code = STOP_REASON_PULL_OVER, distance_s = - 1,
                         stop_heading = 0,
                         stop_decision_point = \<lparr>pt_x = 110, pt_y = - 2.15\<rparr>\<rparr>\<rparr>]\<rparr> \<and>
   pull_over cached_world = Some cached_status \<and>
   stop_point cached_status = Some \<lparr>pt_x = 110, pt_y = - 2.15\<rparr> \<and>
   path_obstacles cached_world = path_obstacles example_world \<and>
   Length moved_env = Length example_env \<and>
   end_s (AdcSlBoundary moved_env) = 108 \<and>
   IsValidStop moved_env cached_world \<lparr>pt_x = 110, pt_y = - 2.15\<rparr> = False \<and>
   GetPullOverStop moved_env cached_world (default_point moved_env) =
     Inr (0, \<lparr>pt_x = 118, pt_y = - 2.15\<rparr>)"
  by (simp add: scenario_defs rule_defs)

text \<open>Claim C7, amended. When pull-over is active, the status holds a start point and a
  stop point, and the stop point passes the validator in this cycle,
  \<^verbatim>\<open>GetPullOverStop\<close> returns 0 with the cached point, whatever the scan would do (no
  hypothesis is made on lanes, overlaps or road widths, which only the scan reads: the
  result is the same where the scan would fault). \<^verbatim>\<open>ApplyRule\<close> then builds the full
  pull-over stop on that point: it writes the start point, the cached stop point and the
  heading into the status, and, when the frame creates the stop wall at the arc length
  of the cached point, adds the wall and a stop decision whose stop point is the cached
  point; when the stop wall is not created it writes the status only. A further cycle on
  the world this leaves, with the same obstacles and the same environment, returns the
  cached point again.\<close>

theorem GetPullOverStop_reuses_cached_point:
  assumes "pull_over w = Some status"
    and "in_pull_over status"
    and "start_point status = Some start"
    and "stop_point status = Some cached"
    and "IsValidStop env w cached"
  shows
    "(let s = sl_s (XYToSL env cached);
          heading = rp_heading (GetReferencePoint env s);
          virtual_obstacle_id = PULL_OVER_VO_ID_PREFIX env @ Reason_Name env (reason status);
          stop = \<lparr>reason_code = STOP_REASON_PULL_OVER,
                   distance_s = - stop_distance (config env),
                   stop_heading = heading,
                   stop_decision_point = cached\<rparr>;
          status' = status
            \<lparr>start_point :=
               Some (SLToXY env \<lparr>sl_s = s - operation_length (config env), sl_l = 0\<rparr>),
             stop_point := Some cached,
             stop_point_heading := Some heading\<rparr>
      in GetPullOverStop env w p = Inr (0, cached) \<and>
         ApplyRule env w = Inr (snd (BuildPullOverStop env w cached)) \<and>
         (CreateStopObstacle env virtual_obstacle_id s = Some ob \<and>
          AddObstacle env ob = Some stop_wall
          \<longrightarrow> ApplyRule env w =
                Inr (w\<lparr>pull_over := Some status',
                       path_obstacles := path_obstacles w @ [stop_wall],
                       longitudinal_decisions := longitudinal_decisions w @
                         [\<lparr>ld_tag = rule_id_name env,
                           ld_object_id = Id (obstacle stop_wall),
                           ld_stop = stop\<rparr>]\<rparr>)) \<and>
         (CreateStopObstacle env virtual_obstacle_id s = None \<or>
          (CreateStopObstacle env virtual_obstacle_id s = Some ob \<and>
           AddObstacle env ob = None)
          \<longrightarrow> ApplyRule env w = Inr (w\<lparr>pull_over := Some status'\<rparr>)) \<and>
         GetPullOverStop env
           ((snd (BuildPullOverStop env w cached))\<lparr>path_obstacles := path_obstacles w\<rparr>) q =
           Inr (0, cached))"
proof -
  have get: "GetPullOverStop env w p = Inr (0, cached)" for p
    using assms
    by (simp add: GetPullOverStop_def cached_stop_point_def pull_over_status_def)
  have rule: "ApplyRule env w = Inr (snd (BuildPullOverStop env w cached))"
    using assms(1,2) get by (simp add: ApplyRule_def IsPullOver_def)
  have range: "0 \<le> sl_s (XYToSL env cached)" "sl_s (XYToSL env cached) \<le> Length env"
    using assms(5) by (auto simp: IsValidStop_def IsValidStop_sl_def split: if_splits)
  define W where
    "W = (snd (BuildPullOverStop env w cached))\<lparr>path_obstacles := path_obstacles w\<rparr>"
  have obs: "path_obstacles W = path_obstacles w"
    by (simp add: W_def)
  have "IsValidStop env W cached = IsValidStop env w cached"
    by (simp add: IsValidStop_def IsValidStop_sl_def obs)
  then have valid: "IsValidStop env W cached"
    using assms(5) by simp
  have kept: "cached_stop_point (pull_over_status env W) = Some cached"
    by (simp add: W_def BuildPullOverStop_def Let_def cached_stop_point_def
        pull_over_status_def)
  have "GetPullOverStop env W q = Inr (0, cached)"
    using valid by (simp add: GetPullOverStop_def kept)
  then have next_cycle: "GetPullOverStop env
      ((snd (BuildPullOverStop env w cached))\<lparr>path_obstacles := path_obstacles w\<rparr>) q =
      Inr (0, cached)"
    by (simp only: W_def)
  have emitted: "snd (BuildPullOverStop env w cached) =
      w\<lparr>pull_over := Some (status
            \<lparr>start_point :=
               Some (SLToXY env \<lparr>sl_s = sl_s (XYToSL env cached) - operation_length (config env),
                                 sl_l = 0\<rparr>),
             stop_point := Some cached,
             stop_point_heading :=
               Some (rp_heading (GetReferencePoint env (sl_s (XYToSL env cached))))\<rparr>),
         path_obstacles := path_obstacles w @ [stop_wall],
         longitudinal_decisions := longitudinal_decisions w @
           [\<lparr>ld_tag = rule_id_name env, ld_object_id = Id (obstacle stop_wall),
             ld_stop = \<lparr>reason_code = STOP_REASON_PULL_OVER,
                        distance_s = - stop_distance (config env),
                        stop_heading =
                          rp_heading (GetReferencePoint env (sl_s (XYToSL env cached))),
                        stop_decision_point = cached\<rparr>\<rparr>]\<rparr>"
    if "CreateStopObstacle env
          (PULL_OVER_VO_ID_PREFIX env @ Reason_Name env (reason status))
          (sl_s (XYToSL env cached)) = Some ob"
      "AddObstacle env ob = Some stop_wall"
    using that range assms(1)
    by (simp add: BuildPullOverStop_def BuildStopDecision_def Let_def pull_over_status_def)
  have silent: "snd (BuildPullOverStop env w cached) =
      w\<lparr>pull_over := Some (status
            \<lparr>start_point :=
               Some (SLToXY env \<lparr>sl_s = sl_s (XYToSL env cached) - operation_length (config env),
                                 sl_l = 0\<rparr>),
             stop_point := Some cached,
             stop_point_heading :=
               Some (rp_heading (GetReferencePoint env (sl_s (XYToSL env cached))))\<rparr>)\<rparr>"
    if "CreateStopObstacle env
          (PULL_OVER_VO_ID_PREFIX env @ Reason_Name env (reason status))
          (sl_s (XYToSL env cached)) = None \<or>
        (CreateStopObstacle env
          (PULL_OVER_VO_ID_PREFIX env @ Reason_Name env (reason status))
          (sl_s (XYToSL env cached)) = Some ob \<and> AddObstacle env ob = None)"
    using that range assms(1)
    by (auto simp: BuildPullOverStop_def BuildStopDecision_def Let_def pull_over_status_def)
  show ?thesis
    unfolding Let_def
    using get rule next_cycle emitted silent by simp
qed

theorem GetPullOverStop_reuses_cached_point_witness:
  "pull_over cached_world = Some cached_status \<and>
   in_pull_over cached_status \<and>
   start_point cached_status = Some \<lparr>pt_x = 107, pt_y = 0\<rparr> \<and>
   stop_point cached_status = Some \<lparr>pt_x = 110, pt_y = - 2.15\<rparr> \<and>
   IsValidStop no_lane_env cached_world \<lparr>pt_x = 110, pt_y = - 2.15\<rparr> \<and>
   FindPullOverStop no_lane_env cached_world = Inl NullLane \<and>
   GetPullOverStop no_lane_env cached_world (default_point no_lane_env) =
     Inr (0, \<lparr>pt_x = 110, pt_y = - 2.15\<rparr>) \<and>
   CreateStopObstacle no_lane_env ''PO_DESTINATION'' 110 = Some (obstacle example_stop_wall) \<and>
   AddObstacle no_lane_env (obstacle example_stop_wall) = Some example_stop_wall \<and>
   ApplyRule no_lane_env cached_world =
     Inr \<lparr>pull_over = Some cached_status,
          path_obstacles = [example_stop_wall],
          longitudinal_decisions =
            [\<lparr>ld_tag = ''PULL_OVER'', ld_object_id = ''PO_DESTINATION'',
              ld_stop = \<lparr>reason_code = STOP_REASON_PULL_OVER, distance_s = - 1,
                         stop_heading = 0,
                         stop_decision_point = \<lparr>pt_x = 110, pt_y = - 2.15\<rparr>\<rparr>\<rparr>]\<rparr>"
  using GetPullOverStop_reuses_cached_point
    [where w = cached_world and status = cached_status
       and start = "\<lparr>pt_x = 107, pt_y = 0\<rparr>" and cached = "\<lparr>pt_x = 110, pt_y = - 2.15\<rparr>"
       and env = no_lane_env and p = "default_point no_lane_env"
       and ob = "obstacle example_stop_wall" and stop_wall = example_stop_wall]
  by (simp add: scenario_defs rule_defs)

lemma GetPullOverStop_no_cache:
  "cached_stop_point (pull_over_status env w) = None \<Longrightarrow>
   GetPullOverStop env w p =
     (case FindPullOverStop env w of
        Inl fault \<Rightarrow> Inl fault
      | Inr (Some found) \<Rightarrow> Inr (0, found)
      | Inr None \<Rightarrow> Inr (- 1, p))"
  by (simp add: GetPullOverStop_def)

lemma GetPullOverStop_scan_exhausted:
  assumes "\<forall>c. cached_stop_point (pull_over_status env w) = Some c \<longrightarrow> \<not> IsValidStop env w c"
    and "FindPullOverStop env w = Inr None"
  shows "GetPullOverStop env w p =
    Inr (- 1, case cached_stop_point (pull_over_status env w) of None \<Rightarrow> p | Some c \<Rightarrow> c)"
  using assms by (auto simp: GetPullOverStop_def Let_def split: option.splits)

text \<open>Claim C8, as stated, fails: the fallback clears the flag \<^verbatim>\<open>in_pull_over\<close> with
  the rest of the status, so the next cycle on the world it leaves does not rescan. It
  returns at the test \<^verbatim>\<open>IsPullOver\<close> and leaves the world as it is, here although a
  scan would find a site at 130.\<close>

theorem next_cycle_no_rescan_counterexample:
  "IsPullOver blocked_cached_world \<and>
   FindPullOverStop short_scan_env blocked_cached_world = Inr None \<and>
   ApplyRule short_scan_env blocked_cached_world = Inr fallback_world \<and>
   pull_over fallback_world = None \<and>
   IsPullOver fallback_world = False \<and>
   FindPullOverStop example_env fallback_world = Inr (Some \<lparr>pt_x = 130, pt_y = - 2.15\<rparr>) \<and>
   ApplyRule example_env fallback_world = Inr fallback_world"
  by (simp add: scenario_defs rule_defs)

text \<open>Claim C8, amended. When pull-over is active, no cached point is reused and the scan
  returns no site, \<^verbatim>\<open>ApplyRule\<close> leaves the world \<open>w'\<close> of \<^verbatim>\<open>BuildInLaneStop\<close>,
  whose pull-over status is cleared whole: no start point, stop point or heading remains,
  and pull-over is no longer active. The next \<^verbatim>\<open>ApplyRule\<close> on \<open>w'\<close> changes nothing.
  No stale point is reused: \<^verbatim>\<open>GetPullOverStop\<close> on \<open>w'\<close>, in any later environment
  \<open>env'\<close>, returns what the scan finds, and once pull-over is requested again on the
  cleared status, \<^verbatim>\<open>ApplyRule\<close> acts on the result of a new scan.\<close>

theorem fallback_clears_pull_over_state:
  assumes "IsPullOver w"
    and "\<forall>c. cached_stop_point (pull_over_status env w) = Some c \<longrightarrow> \<not> IsValidStop env w c"
    and "FindPullOverStop env w = Inr None"
  shows "\<exists>w'. ApplyRule env w = Inr w' \<and>
    w' = snd (BuildInLaneStop env w
      (case cached_stop_point (pull_over_status env w) of
         None \<Rightarrow> default_point env | Some c \<Rightarrow> c)) \<and>
    pull_over w' = None \<and>
    \<not> IsPullOver w' \<and>
    ApplyRule env' w' = Inr w' \<and>
    start_point (pull_over_status env' w') = None \<and>
    stop_point (pull_over_status env' w') = None \<and>
    stop_point_heading (pull_over_status env' w') = None \<and>
    GetPullOverStop env' w' q =
      (case FindPullOverStop env' w' of
         Inl fault \<Rightarrow> Inl fault
       | Inr (Some found) \<Rightarrow> Inr (0, found)
       | Inr None \<Rightarrow> Inr (- 1, q)) \<and>
    (let w'' = w'\<lparr>pull_over := Some ((default_status env')\<lparr>in_pull_over := True, reason := r\<rparr>)\<rparr>
     in ApplyRule env' w'' =
       (case FindPullOverStop env' w'' of
          Inl fault \<Rightarrow> Inl fault
        | Inr (Some found) \<Rightarrow> Inr (snd (BuildPullOverStop env' w'' found))
        | Inr None \<Rightarrow> Inr (snd (BuildInLaneStop env' w'' (default_point env')))))"
proof -
  define p where "p = (case cached_stop_point (pull_over_status env w) of
      None \<Rightarrow> default_point env | Some c \<Rightarrow> c)"
  define w' where "w' = snd (BuildInLaneStop env w p)"
  define w'' where
    "w'' = w'\<lparr>pull_over := Some ((default_status env')\<lparr>in_pull_over := True, reason := r\<rparr>)\<rparr>"
  have "GetPullOverStop env w (default_point env) = Inr (- 1, p)"
    unfolding p_def using assms(2,3) by (rule GetPullOverStop_scan_exhausted)
  then have rule: "ApplyRule env w = Inr w'"
    using assms(1) by (simp add: ApplyRule_def w'_def)
  have cleared: "pull_over w' = None"
    by (simp add: w'_def BuildInLaneStop_def Let_def)
  then have status: "pull_over_status env' w' = default_status env'"
    by (simp add: pull_over_status_def)
  have none: "cached_stop_point (pull_over_status env' w') = None"
    by (simp add: status cached_stop_point_def default_status_def)
  have none'': "cached_stop_point (pull_over_status env' w'') = None"
    by (simp add: w''_def cached_stop_point_def pull_over_status_def default_status_def)
  have active: "IsPullOver w''"
    by (simp add: w''_def IsPullOver_def)
  have again: "ApplyRule env' w'' =
       (case FindPullOverStop env' w'' of
          Inl fault \<Rightarrow> Inl fault
        | Inr (Some found) \<Rightarrow> Inr (snd (BuildPullOverStop env' w'' found))
        | Inr None \<Rightarrow> Inr (snd (BuildInLaneStop env' w'' (default_point env'))))"
    using active
    by (simp add: ApplyRule_def GetPullOverStop_no_cache [OF none'']
        split: sum.splits option.splits)
  have inactive: "\<not> IsPullOver w'"
    using cleared by (simp add: IsPullOver_def)
  then have noop: "ApplyRule env' w' = Inr w'"
    by (simp add: ApplyRule_def)
  have built: "w' = snd (BuildInLaneStop env w
      (case cached_stop_point (pull_over_status env w) of
         None \<Rightarrow> default_point env | Some c \<Rightarrow> c))"
    by (simp only: w'_def p_def)
  have fields: "start_point (pull_over_status env' w') = None"
    "stop_point (pull_over_status env' w') = None"
    "stop_point_heading (pull_over_status env' w') = None"
    by (simp_all add: status default_status_def)
  have rescan: "GetPullOverStop env' w' q =
      (case FindPullOverStop env' w' of
         Inl fault \<Rightarrow> Inl fault
       | Inr (Some found) \<Rightarrow> Inr (0, found)
       | Inr None \<Rightarrow> Inr (- 1, q))"
    by (rule GetPullOverStop_no_cache [OF none])
  have requested: "(let w'' = w'\<lparr>pull_over := Some ((default_status env')\<lparr>in_pull_over := True, reason := r\<rparr>)\<rparr>
     in ApplyRule env' w'' =
       (case FindPullOverStop env' w'' of
          Inl fault \<Rightarrow> Inl fault
        | Inr (Some found) \<Rightarrow> Inr (snd (BuildPullOverStop env' w'' found))
        | Inr None \<Rightarrow> Inr (snd (BuildInLaneStop env' w'' (default_point env')))))"
    unfolding Let_def w''_def [symmetric] by (rule again)
  have "ApplyRule env w = Inr w' \<and>
    w' = snd (BuildInLaneStop env w
      (case cached_stop_point (pull_over_status env w) of
         None \<Rightarrow> default_point env | Some c \<Rightarrow> c)) \<and>
    pull_over w' = None \<and>
    \<not> IsPullOver w' \<and>
    ApplyRule env' w' = Inr w' \<and>
    start_point (pull_over_status env' w') = None \<and>
    stop_point (pull_over_status env' w') = None \<and>
    stop_point_heading (pull_over_status env' w') = None \<and>
    GetPullOverStop env' w' q =
      (case FindPullOverStop env' w' of
         Inl fault \<Rightarrow> Inl fault
       | Inr (Some found) \<Rightarrow> Inr (0, found)
       | Inr None \<Rightarrow> Inr (- 1, q)) \<and>
    (let w'' = w'\<lparr>pull_over := Some ((default_status env')\<lparr>in_pull_over := True, reason := r\<rparr>)\<rparr>
     in ApplyRule env' w'' =
       (case FindPullOverStop env' w'' of
          Inl fault \<Rightarrow> Inl fault
        | Inr (Some found) \<Rightarrow> Inr (snd (BuildPullOverStop env' w'' found))
        | Inr None \<Rightarrow> Inr (snd (BuildInLaneStop env' w'' (default_point env')))))"
    by (intro conjI rule built cleared inactive noop fields rescan requested)
  then show ?thesis by (rule exI)
qed

theorem fallback_clears_pull_over_state_witness:
  "IsPullOver blocked_cached_world \<and>
   cached_stop_point (pull_over_status short_scan_env blocked_cached_world) =
     Some \<lparr>pt_x = 110, pt_y = - 2.15\<rparr> \<and>
   \<not> IsValidStop short_scan_env blocked_cached_world \<lparr>pt_x = 110, pt_y = - 2.15\<rparr> \<and>
   FindPullOverStop short_scan_env blocked_cached_world = Inr None \<and>
   (\<exists>w'. ApplyRule short_scan_env blocked_cached_world = Inr w' \<and> pull_over w' = None \<and>
      \<not> IsPullOver w' \<and> ApplyRule example_env w' = Inr w' \<and>
      GetPullOverStop example_env w' (default_point example_env) =
        (case FindPullOverStop example_env w' of
           Inl fault \<Rightarrow> Inl fault
         | Inr (Some found) \<Rightarrow> Inr (0, found)
         | Inr None \<Rightarrow> Inr (- 1, default_point example_env)))"
  using fallback_clears_pull_over_state
    [where w = blocked_cached_world and env = short_scan_env and env' = example_env
       and q = "default_point example_env" and r = DESTINATION]
  by (simp add: scenario_defs rule_defs)

text \<open>Claim C3, as stated, fails: with the vehicle between the arc lengths 95.2 and 100,
  a cached stop at 110 that an obstacle now blocks and a scan that finds nothing, the
  fallback stop is put at the reference point of arc length 110, the cached stop's, and
  not at the reference point of the vehicle's arc length.\<close>

theorem fallback_stop_not_at_vehicle_counterexample:
  "IsPullOver blocked_cached_world \<and>
   FindPullOverStop short_scan_env blocked_cached_world = Inr None \<and>
   end_s (AdcSlBoundary short_scan_env) = 100 \<and>
   start_s (AdcSlBoundary short_scan_env) = 95.2 \<and>
   GetReferencePoint short_scan_env 100 = \<lparr>rp_x = 100, rp_y = 0, rp_heading = 0\<rparr> \<and>
   ApplyRule short_scan_env blocked_cached_world =
     Inr \<lparr>pull_over = None,
          path_obstacles = [parked_car,
            \<lparr>obstacle = \<lparr>Id = ''PO_DESTINATION'', IsVirtual = True, IsStatic = True\<rparr>,
             PerceptionSLBoundary = \<lparr>start_s = 0, end_s = 0, start_l = 0, end_l = 0\<rparr>\<rparr>],
          longitudinal_decisions =
            [\<lparr>ld_tag = ''PULL_OVER'', ld_object_id = ''PO_DESTINATION'',
              ld_stop = \<lparr>reason_code = STOP_REASON_PULL_OVER, distance_s = - 1,
                         stop_heading = 0,
                         stop_decision_point = \<lparr>pt_x = 110, pt_y = 0\<rparr>\<rparr>\<rparr>]\<rparr>"
  by (simp add: scenario_defs rule_defs)

text \<open>Claim C3, amended. When pull-over is active, a start and a stop point are cached,
  the cached stop point fails the validator and the scan returns no site,
  \<^verbatim>\<open>ApplyRule\<close> runs \<^verbatim>\<open>BuildInLaneStop\<close> on the cached stop point. With \<open>s\<close> the
  arc length of the cached stop point: when the stop line \<open>s - stop_distance\<close> lies within
  the reference line and the frame creates the stop wall there, the rule adds the wall and
  a stop decision with the reference point at \<open>s\<close> as its stop point and heading and
  \<open>distance_s = -stop_distance\<close>, and clears the status; when the stop line lies outside
  or the wall is not created, it clears the status and adds nothing.\<close>

theorem fallback_stop_at_cached_point:
  assumes "IsPullOver w"
    and "cached_stop_point (pull_over_status env w) = Some c"
    and "\<not> IsValidStop env w c"
    and "FindPullOverStop env w = Inr None"
  shows
    "(let s = sl_s (XYToSL env c);
          point = GetReferencePoint env s;
          stop_line_s = s - stop_distance (config env);
          virtual_obstacle_id =
            PULL_OVER_VO_ID_PREFIX env @ Reason_Name env (reason (pull_over_status env w));
          stop = \<lparr>reason_code = STOP_REASON_PULL_OVER,
                   distance_s = - stop_distance (config env),
                   stop_heading = rp_heading point,
                   stop_decision_point = \<lparr>pt_x = rp_x point, pt_y = rp_y point\<rparr>\<rparr>
      in ApplyRule env w = Inr (snd (BuildInLaneStop env w c)) \<and>
         (0 \<le> stop_line_s \<and> stop_line_s \<le> Length env \<and>
          CreateStopObstacle env virtual_obstacle_id stop_line_s = Some ob \<and>
          AddObstacle env ob = Some stop_wall
          \<longrightarrow> ApplyRule env w =
                Inr (w\<lparr>pull_over := None,
                       path_obstacles := path_obstacles w @ [stop_wall],
                       longitudinal_decisions := longitudinal_decisions w @
                         [\<lparr>ld_tag = rule_id_name env,
                           ld_object_id = Id (obstacle stop_wall),
                           ld_stop = stop\<rparr>]\<rparr>)) \<and>
         (stop_line_s < 0 \<or> stop_line_s > Length env \<or>
          CreateStopObstacle env virtual_obstacle_id stop_line_s = None \<or>
          (CreateStopObstacle env virtual_obstacle_id stop_line_s = Some ob \<and>
           AddObstacle env ob = None)
          \<longrightarrow> ApplyRule env w = Inr (w\<lparr>pull_over := None\<rparr>)))"
proof -
  have "GetPullOverStop env w (default_point env) = Inr (- 1, c)"
    using assms(2,3,4) GetPullOverStop_scan_exhausted [of env w "default_point env"]
    by simp
  then have rule: "ApplyRule env w = Inr (snd (BuildInLaneStop env w c))"
    using assms(1) by (simp add: ApplyRule_def)
  show ?thesis
    unfolding rule Let_def
    by (auto simp: BuildInLaneStop_def BuildStopDecision_def Let_def)
qed

theorem fallback_stop_at_cached_point_witness:
  "IsPullOver blocked_cached_world \<and>
   cached_stop_point (pull_over_status short_scan_env blocked_cached_world) =
     Some \<lparr>pt_x = 110, pt_y = - 2.15\<rparr> \<and>
   \<not> IsValidStop short_scan_env blocked_cached_world \<lparr>pt_x = 110, pt_y = - 2.15\<rparr> \<and>
   FindPullOverStop short_scan_env blocked_cached_world = Inr None \<and>
   CreateStopObstacle short_scan_env ''PO_DESTINATION'' 109 = Some (obstacle example_stop_wall) \<and>
   AddObstacle short_scan_env (obstacle example_stop_wall) = Some example_stop_wall \<and>
   ApplyRule short_scan_env blocked_cached_world =
     Inr (blocked_cached_world
       \<lparr>pull_over := None,
        path_obstacles := path_obstacles blocked_cached_world @ [example_stop_wall],
        longitudinal_decisions := longitudinal_decisions blocked_cached_world @
          [\<lparr>ld_tag = ''PULL_OVER'', ld_object_id = ''PO_DESTINATION'',
            ld_stop = \<lparr>reason_code = STOP_REASON_PULL_OVER, distance_s = - 1,
                       stop_heading = 0,
                       stop_decision_point = \<lparr>pt_x = 110, pt_y = 0\<rparr>\<rparr>\<rparr>]\<rparr>)"
  using fallback_stop_at_cached_point
    [where w = blocked_cached_world and env = short_scan_env
       and c = "\<lparr>pt_x = 110, pt_y = - 2.15\<rparr>" and ob = "obstacle example_stop_wall"
       and stop_wall = example_stop_wall]
  by (simp add: scenario_defs rule_defs)

end
